theory Spec2Isabelle
  imports Complex_Main
begin

section \<open>DataHub: cached daily OHLCV bars with a simulated fallback\<close>

text \<open>
  A shallow embedding of \<^verbatim>\<open>project100x/src/datahub.py\<close> (class \<^verbatim>\<open>DataHub\<close>).

  \<^item> A pandas DataFrame with a DatetimeIndex named \<^verbatim>\<open>Date\<close> and the columns
    \<^verbatim>\<open>Open, High, Low, Close, Volume\<close> is a list of rows, in index order.
  \<^item> A date is the number of days since 1970-01-01 (all timestamps of the program are
    midnights of calendar days); \<open>days_from_civil\<close> gives the number of a civil date.
  \<^item> Prices are \<open>real\<close>: the order and sign reasoning below is that of exact arithmetic,
    the rounding of the 64-bit floats of numpy is not modelled.
  \<^item> The values \<^verbatim>\<open>np.random\<close> returns are inputs of the model (record \<open>draws\<close>).
  \<^item> \<^verbatim>\<open>yf.download\<close> is an input of the model: a function that returns a frame or raises.
  \<^item> The directory of CSV files is a map from file path to the frame stored there;
    \<^verbatim>\<open>to_csv\<close> writes an entry and \<^verbatim>\<open>read_csv\<close> reads it back.
  \<^item> Every \<^verbatim>\<open>print\<close> and every call of the provider is an event appended to a trace.
\<close>

subsection \<open>Data\<close>

type_synonym date = int

record bar =
  Date :: date
  Open :: real
  High :: real
  Low :: real
  Close :: real
  Volume :: int

type_synonym dataframe = "bar list"

text \<open>The civil date \<open>y-m-d\<close> as a day number, what \<^verbatim>\<open>pd.to_datetime('YYYY-MM-DD')\<close> denotes.\<close>

definition days_from_civil :: "int \<Rightarrow> int \<Rightarrow> int \<Rightarrow> date" where
  "days_from_civil y m d =
     (let y' = (if m \<le> 2 then y - 1 else y);
          era = y' div 400;
          yoe = y' - era * 400;
          doy = (153 * (if m > 2 then m - 3 else m + 9) + 2) div 5 + d - 1;
          doe = yoe * 365 + yoe div 4 - yoe div 100 + doy
      in era * 146097 + doe - 719468)"

text \<open>
  The values the random number generator returns during one run of
  \<^verbatim>\<open>_generate_simulated_ohlcv\<close>, by the place that draws them:
  \<open>initial\<close> is \<^verbatim>\<open>np.random.uniform(50, 200)\<close>, \<open>drift k\<close> is
  \<^verbatim>\<open>np.random.uniform(-0.005, 0.01)\<close> in iteration \<open>k\<close> of the loop, and the others are
  entry \<open>i\<close> of the arrays \<^verbatim>\<open>np.random.uniform(-0.002, 0.002, n)\<close> (open, close),
  \<^verbatim>\<open>np.random.uniform(0.001, 0.005, n)\<close> (high, low) and
  \<^verbatim>\<open>np.random.randint(100000, 10000000, n)\<close>.
\<close>

record draws =
  initial :: real
  drift :: "nat \<Rightarrow> real"
  noise_open :: "nat \<Rightarrow> real"
  noise_close :: "nat \<Rightarrow> real"
  noise_high :: "nat \<Rightarrow> real"
  noise_low :: "nat \<Rightarrow> real"
  rand_volume :: "nat \<Rightarrow> int"

text \<open>The bounds numpy documents for those draws, for a series of \<open>n\<close> days.\<close>

definition draws_in_range :: "nat \<Rightarrow> draws \<Rightarrow> bool" where
  "draws_in_range n d =
     (50 \<le> initial d \<and> initial d \<le> 200 \<and>
      list_all (\<lambda>k. - 0.005 \<le> drift d k \<and> drift d k \<le> 0.01) [1..<n] \<and>
      list_all (\<lambda>i. - 0.002 \<le> noise_open d i \<and> noise_open d i \<le> 0.002 \<and>
                     - 0.002 \<le> noise_close d i \<and> noise_close d i \<le> 0.002 \<and>
                     0.001 \<le> noise_high d i \<and> noise_high d i \<le> 0.005 \<and>
                     0.001 \<le> noise_low d i \<and> noise_low d i \<le> 0.005) [0..<n])"

datatype yf_result = Raises | Returns dataframe

record env =
  yf_download :: "string \<Rightarrow> date \<Rightarrow> date \<Rightarrow> yf_result"
  rnd :: draws

datatype event =
    PrintDownloading string date date
  | YfDownload string date date
  | PrintNoData string
  | PrintError string
  | PrintGenerating string date date
  | PrintNotCovered string date date
  | PrintFailedAgain

record world =
  files :: "string \<rightharpoonup> dataframe"
  trace :: "event list"

record DataHub =
  data_path :: string

subsection \<open>Library operations\<close>

definition emit :: "event \<Rightarrow> world \<Rightarrow> world" where
  "emit e w = w\<lparr>trace := trace w @ [e]\<rparr>"

text \<open>\<^verbatim>\<open>df.to_csv(file_path)\<close>: the file is created or overwritten.\<close>

definition to_csv :: "string \<Rightarrow> dataframe \<Rightarrow> world \<Rightarrow> world" where
  "to_csv file_path df w = w\<lparr>files := (files w)(file_path \<mapsto> df)\<rparr>"

text \<open>\<^verbatim>\<open>os.path.join(a, b)\<close> on POSIX.\<close>

definition path_join :: "string \<Rightarrow> string \<Rightarrow> string" where
  "path_join a b =
     (if b \<noteq> [] \<and> hd b = CHR ''/'' then b
      else if a = [] \<or> last a = CHR ''/'' then a @ b
      else a @ ''/'' @ b)"

text \<open>\<^verbatim>\<open>pd.date_range(start=start_date, end=end_date, freq='D')\<close>; empty when the end
  is before the start.\<close>

definition date_range :: "date \<Rightarrow> date \<Rightarrow> date list" where
  "date_range start_date end_date = [start_date..end_date]"

text \<open>
  Elementwise numpy operations on one-dimensional arrays. The operands of the program
  have equal lengths, but for an empty date range, where \<^verbatim>\<open>prices\<close> has one entry and the
  random arrays none: broadcasting then gives the empty array, as \<open>zip\<close> does.
\<close>

definition np_mul :: "real list \<Rightarrow> real list \<Rightarrow> real list" where
  "np_mul xs ys = map2 (*) xs ys"

definition np_maximum :: "real list \<Rightarrow> real list \<Rightarrow> real list" where
  "np_maximum xs ys = map2 max xs ys"

definition np_minimum :: "real list \<Rightarrow> real list \<Rightarrow> real list" where
  "np_minimum xs ys = map2 min xs ys"

text \<open>\<^verbatim>\<open>df[(df.index >= start) & (df.index <= end)].copy()\<close>\<close>

definition filter_range :: "dataframe \<Rightarrow> date \<Rightarrow> date \<Rightarrow> dataframe" where
  "filter_range df start_date end_date =
     filter (\<lambda>b. start_date \<le> Date b \<and> Date b \<le> end_date) df"

text \<open>\<^verbatim>\<open>pd.DataFrame(data, index=dates)\<close> for columns as long as the index.\<close>

definition DataFrame ::
  "real list \<Rightarrow> real list \<Rightarrow> real list \<Rightarrow> real list \<Rightarrow> int list \<Rightarrow> date list \<Rightarrow> dataframe" where
  "DataFrame open_prices high_prices low_prices close_prices volume dates =
     map (\<lambda>i. \<lparr>Date = dates ! i, Open = open_prices ! i, High = high_prices ! i,
               Low = low_prices ! i, Close = close_prices ! i, Volume = volume ! i\<rparr>)
       [0..<length dates]"

subsection \<open>The simulated series\<close>

text \<open>
  The loop \<^verbatim>\<open>for _ in range(1, len(dates)): price_series.append(price_series[-1] * (1 + u))\<close>
  over the remaining iterations.
\<close>

fun price_loop :: "(nat \<Rightarrow> real) \<Rightarrow> real list \<Rightarrow> nat list \<Rightarrow> real list" where
  "price_loop u price_series [] = price_series"
| "price_loop u price_series (k # ks) =
     price_loop u (price_series @ [last price_series * (1 + u k)]) ks"

text \<open>The frame \<^verbatim>\<open>_generate_simulated_ohlcv\<close> returns (the ticker is only printed).\<close>

definition simulated_ohlcv :: "draws \<Rightarrow> date \<Rightarrow> date \<Rightarrow> dataframe" where
  "simulated_ohlcv d start_date end_date =
     (let dates = date_range start_date end_date;
          n = length dates;
          prices = price_loop (drift d) [initial d] [1..<n];
          open_prices = np_mul prices (map (\<lambda>i. 1 + noise_open d i) [0..<n]);
          close_prices = np_mul prices (map (\<lambda>i. 1 + noise_close d i) [0..<n]);
          high_prices = np_mul (np_maximum open_prices close_prices)
                          (map (\<lambda>i. 1 + noise_high d i) [0..<n]);
          low_prices = np_mul (np_minimum open_prices close_prices)
                         (map (\<lambda>i. 1 - noise_low d i) [0..<n]);
          high_prices = np_maximum high_prices (np_maximum open_prices close_prices);
          low_prices = np_minimum low_prices (np_minimum open_prices close_prices);
          volume = map (rand_volume d) [0..<n]
      in DataFrame open_prices high_prices low_prices close_prices volume dates)"

definition generate_simulated_ohlcv ::
  "draws \<Rightarrow> string \<Rightarrow> date \<Rightarrow> date \<Rightarrow> world \<Rightarrow> dataframe \<times> world" where
  "generate_simulated_ohlcv d ticker start_date end_date w =
     (simulated_ohlcv d start_date end_date,
      emit (PrintGenerating ticker start_date end_date) w)"

subsection \<open>Download with fallback, and the cached lookup\<close>

definition download_ohlcv ::
  "env \<Rightarrow> string \<Rightarrow> date \<Rightarrow> date \<Rightarrow> world \<Rightarrow> dataframe \<times> world" where
  "download_ohlcv e ticker start_date end_date w =
     (let w = emit (PrintDownloading ticker start_date end_date) w;
          w = emit (YfDownload ticker start_date end_date) w
      in case yf_download e ticker start_date end_date of
           Returns df \<Rightarrow>
             if df = [] then
               generate_simulated_ohlcv (rnd e) ticker start_date end_date
                 (emit (PrintNoData ticker) w)
             else (df, w)
         | Raises \<Rightarrow>
             generate_simulated_ohlcv (rnd e) ticker start_date end_date
               (emit (PrintError ticker) w))"

definition file_path_of :: "DataHub \<Rightarrow> string \<Rightarrow> string" where
  "file_path_of self ticker = path_join (data_path self) (ticker @ ''.csv'')"

definition get_ohlcv_data ::
  "DataHub \<Rightarrow> env \<Rightarrow> string \<Rightarrow> date \<Rightarrow> date \<Rightarrow> world \<Rightarrow> dataframe \<times> world" where
  "get_ohlcv_data self e ticker start_date end_date w =
     (let file_path = file_path_of self ticker in
      case files w file_path of
        None \<Rightarrow>
          (let (df, w) = download_ohlcv e ticker start_date end_date w
           in (df, to_csv file_path df w))
      | Some df \<Rightarrow>
          (let df_filtered = filter_range df start_date end_date in
           if df_filtered = [] then
             (let w = emit (PrintNotCovered ticker start_date end_date) w;
                  (df, w) = download_ohlcv e ticker start_date end_date w
              in if df \<noteq> [] then
                   (filter_range df start_date end_date, to_csv file_path df w)
                 else (df_filtered, emit PrintFailedAgain w))
           else (df_filtered, w)))"

subsection \<open>Vocabulary of the properties\<close>

text \<open>The ordering of one bar: \<open>low \<le> min(open, close)\<close> and \<open>max(open, close) \<le> high\<close>.\<close>

definition ohlc_ok :: "bar \<Rightarrow> bool" where
  "ohlc_ok b = (Low b \<le> min (Open b) (Close b) \<and> max (Open b) (Close b) \<le> High b)"

definition prices_positive :: "bar \<Rightarrow> bool" where
  "prices_positive b = (0 < Open b \<and> 0 < High b \<and> 0 < Low b \<and> 0 < Close b)"

text \<open>The calls of the provider recorded in a trace.\<close>

definition yf_calls :: "event list \<Rightarrow> event list" where
  "yf_calls t = filter (\<lambda>ev. case ev of YfDownload _ _ _ \<Rightarrow> True | _ \<Rightarrow> False) t"

text \<open>A cache hit: the file of the ticker exists and has a row in the requested range.\<close>

definition cache_hit :: "DataHub \<Rightarrow> world \<Rightarrow> string \<Rightarrow> date \<Rightarrow> date \<Rightarrow> bool" where
  "cache_hit self w ticker start_date end_date =
     (case files w (file_path_of self ticker) of
        None \<Rightarrow> False
      | Some df \<Rightarrow> filter_range df start_date end_date \<noteq> [])"

text \<open>The events a run appended to the trace of the world \<open>w\<close> it started in.\<close>

definition new_events :: "world \<Rightarrow> world \<Rightarrow> event list" where
  "new_events w w' = drop (length (trace w)) (trace w')"

subsection \<open>Concrete inputs\<close>

text \<open>The hub with the default directory of \<^verbatim>\<open>__init__\<close>, and an empty directory.\<close>

definition hub :: DataHub where
  "hub = \<lparr>data_path = ''project100x/data/raw''\<rparr>"

definition world_fresh :: world where
  "world_fresh = \<lparr>files = Map.empty, trace = []\<rparr>"

text \<open>One admissible outcome of the random draws.\<close>

definition draws_ex :: draws where
  "draws_ex = \<lparr>initial = 100, drift = (\<lambda>_. 0.01), noise_open = (\<lambda>_. 0.002),
     noise_close = (\<lambda>_. - 0.002), noise_high = (\<lambda>_. 0.001), noise_low = (\<lambda>_. 0.005),
     rand_volume = (\<lambda>_. 100000)\<rparr>"

text \<open>A provider that is unreachable, and one that answers every request with the rows
  of 2019-12-31, 2020-01-01 and 2020-01-02.\<close>

definition env_raises :: env where
  "env_raises = \<lparr>yf_download = (\<lambda>_ _ _. Raises), rnd = draws_ex\<rparr>"

definition bar_ex :: "date \<Rightarrow> bar" where
  "bar_ex d = \<lparr>Date = d, Open = 100, High = 101, Low = 99, Close = 100, Volume = 100000\<rparr>"

definition env_real :: env where
  "env_real = \<lparr>yf_download = (\<lambda>_ _ _. Returns [bar_ex 18261, bar_ex 18262, bar_ex 18263]),
     rnd = draws_ex\<rparr>"

text \<open>A directory whose file for QQQ holds the rows of 2019-12-31, 2020-01-01, 2020-01-05
  and 2020-01-06, and one whose file for QQQ holds a single row of 2019-01-01.\<close>

definition world_partial :: world where
  "world_partial =
     \<lparr>files = [''project100x/data/raw/QQQ.csv'' \<mapsto>
                 [bar_ex 18261, bar_ex 18262, bar_ex 18266, bar_ex 18267]],
      trace = []\<rparr>"

definition world_stale :: world where
  "world_stale = \<lparr>files = [''project100x/data/raw/QQQ.csv'' \<mapsto> [bar_ex 17897]], trace = []\<rparr>"

section \<open>Properties of the simulated series\<close>

lemma length_date_range: "length (date_range s e) = nat (e - s + 1)"
  by (simp add: date_range_def)

lemma nth_date_range: "i < nat (e - s + 1) \<Longrightarrow> date_range s e ! i = s + int i"
  by (simp add: date_range_def)

lemma length_price_loop: "length (price_loop u acc ks) = length acc + length ks"
  by (induction ks arbitrary: acc) auto

lemma length_simulated: "length (simulated_ohlcv d s e) = nat (e - s + 1)"
  by (simp add: simulated_ohlcv_def Let_def DataFrame_def length_date_range)

lemma nth_simulated:
  assumes "i < nat (e - s + 1)"
  shows "simulated_ohlcv d s e ! i =
     (let p = price_loop (drift d) [initial d] [1..<nat (e - s + 1)] ! i;
          op = p * (1 + noise_open d i);
          cl = p * (1 + noise_close d i)
      in \<lparr>Date = s + int i, Open = op,
          High = max (max op cl * (1 + noise_high d i)) (max op cl),
          Low = min (min op cl * (1 - noise_low d i)) (min op cl),
          Close = cl, Volume = rand_volume d i\<rparr>)"
proof -
  let ?n = "nat (e - s + 1)"
  have n: "length (date_range s e) = ?n" by (rule length_date_range)
  have lp: "length (price_loop (drift d) [initial d] [1..<?n]) = ?n"
    using assms by (simp add: length_price_loop)
  show ?thesis
    unfolding simulated_ohlcv_def Let_def DataFrame_def n
      np_mul_def np_maximum_def np_minimum_def
    using assms lp by (simp add: nth_date_range)
qed

lemma price_loop_pos:
  "acc \<noteq> [] \<Longrightarrow> \<forall>x\<in>set acc. 0 < x \<Longrightarrow> \<forall>k\<in>set ks. 0 < 1 + u k
     \<Longrightarrow> \<forall>x\<in>set (price_loop u acc ks). 0 < x"
proof (induction ks arbitrary: acc)
  case Nil
  then show ?case by simp
next
  case (Cons k ks)
  have "0 < last acc" using Cons.prems(1,2) by simp
  moreover have "0 < 1 + u k" using Cons.prems(3) by simp
  ultimately have "0 < last acc * (1 + u k)" by simp
  then have pos: "\<forall>x\<in>set (acc @ [last acc * (1 + u k)]). 0 < x"
    using Cons.prems(2) by auto
  have ne: "acc @ [last acc * (1 + u k)] \<noteq> []" by simp
  have ks: "\<forall>k\<in>set ks. 0 < 1 + u k" using Cons.prems(3) by simp
  show ?case using Cons.IH[OF ne pos ks] by simp
qed

lemma simulated_bar_cases:
  assumes "b \<in> set (simulated_ohlcv d s e)"
  obtains i where "i < nat (e - s + 1)" and "b = simulated_ohlcv d s e ! i"
  using assms by (auto simp: in_set_conv_nth length_simulated)

lemma simulated_ohlc_ok:
  assumes "b \<in> set (simulated_ohlcv d s e)"
  shows "ohlc_ok b"
proof -
  from assms obtain i where i: "i < nat (e - s + 1)" and b: "b = simulated_ohlcv d s e ! i"
    by (rule simulated_bar_cases)
  show ?thesis
    unfolding b nth_simulated[OF i]
    by (simp add: ohlc_ok_def Let_def min_le_iff_disj le_max_iff_disj)
qed

lemma map_Date_simulated: "map Date (simulated_ohlcv d s e) = [s..e]"
proof (rule nth_equalityI)
  show "length (map Date (simulated_ohlcv d s e)) = length [s..e]"
    by (simp add: length_simulated)
next
  fix i assume "i < length (map Date (simulated_ohlcv d s e))"
  then have i: "i < nat (e - s + 1)" by (simp add: length_simulated)
  then show "map Date (simulated_ohlcv d s e) ! i = [s..e] ! i"
    by (simp add: length_simulated nth_simulated Let_def)
qed

lemma sorted_wrt_less_upto: "sorted_wrt (<) [i..j]"
  by (metis distinct_upto sorted_upto strict_sorted_iff)

lemma price_loop_nth_pos:
  assumes "draws_in_range n d" and "i < n"
  shows "0 < price_loop (drift d) [initial d] [1..<n] ! i"
proof -
  have "\<forall>k\<in>set [1..<n]. 0 < 1 + drift d k"
  proof
    fix k assume "k \<in> set [1..<n]"
    with assms(1) have "- 0.005 \<le> drift d k"
      by (simp add: draws_in_range_def list_all_iff)
    then show "0 < 1 + drift d k" by simp
  qed
  moreover have "\<forall>x\<in>set [initial d]. 0 < x"
    using assms(1) by (simp add: draws_in_range_def)
  ultimately have "\<forall>x\<in>set (price_loop (drift d) [initial d] [1..<n]). 0 < x"
    by (intro price_loop_pos) simp_all
  moreover have "i < length (price_loop (drift d) [initial d] [1..<n])"
    using assms(2) by (simp add: length_price_loop)
  ultimately show ?thesis by (meson nth_mem)
qed

lemma simulated_prices_positive:
  assumes "draws_in_range (nat (e - s + 1)) d" and "b \<in> set (simulated_ohlcv d s e)"
  shows "prices_positive b"
proof -
  from assms(2) obtain i where i: "i < nat (e - s + 1)" and b: "b = simulated_ohlcv d s e ! i"
    by (rule simulated_bar_cases)
  define p where "p = price_loop (drift d) [initial d] [1..<nat (e - s + 1)] ! i"
  have p: "0 < p" unfolding p_def using assms(1) i by (rule price_loop_nth_pos)
  have "i \<in> set [0..<nat (e - s + 1)]" using i by simp
  with assms(1) have r: "- 0.002 \<le> noise_open d i" "- 0.002 \<le> noise_close d i"
      "0.001 \<le> noise_high d i" "noise_low d i \<le> 0.005"
    by (simp_all add: draws_in_range_def list_all_iff)
  have op: "0 < p * (1 + noise_open d i)" using p r(1) by simp
  have cl: "0 < p * (1 + noise_close d i)" using p r(2) by simp
  have lo: "0 < min (p * (1 + noise_open d i)) (p * (1 + noise_close d i)) * (1 - noise_low d i)"
    using op cl r(4) by simp
  show ?thesis
    unfolding b nth_simulated[OF i] Let_def p_def[symmetric]
    using op cl lo by (simp add: prices_positive_def less_max_iff_disj)
qed

section \<open>Properties of the download and of the cached lookup\<close>

lemma fst_download_ohlcv:
  "fst (download_ohlcv e ticker s t w) =
     (case yf_download e ticker s t of
        Raises \<Rightarrow> simulated_ohlcv (rnd e) s t
      | Returns df \<Rightarrow> if df = [] then simulated_ohlcv (rnd e) s t else df)"
  by (simp add: download_ohlcv_def generate_simulated_ohlcv_def Let_def split: yf_result.split)

lemma files_download_ohlcv: "files (snd (download_ohlcv e ticker s t w)) = files w"
  by (simp add: download_ohlcv_def generate_simulated_ohlcv_def emit_def Let_def
      split: yf_result.split)

lemma trace_download_ohlcv:
  "trace (snd (download_ohlcv e ticker s t w)) =
     trace w @ [PrintDownloading ticker s t, YfDownload ticker s t] @
       (case yf_download e ticker s t of
          Raises \<Rightarrow> [PrintError ticker, PrintGenerating ticker s t]
        | Returns df \<Rightarrow> if df = [] then [PrintNoData ticker, PrintGenerating ticker s t] else [])"
  by (simp add: download_ohlcv_def generate_simulated_ohlcv_def emit_def Let_def
      split: yf_result.split)

lemma simulated_nonempty: "s \<le> t \<Longrightarrow> simulated_ohlcv d s t \<noteq> []"
proof -
  assume "s \<le> t"
  then have "0 < length (simulated_ohlcv d s t)" by (simp add: length_simulated)
  then show ?thesis by auto
qed

lemma download_nonempty: "s \<le> t \<Longrightarrow> fst (download_ohlcv e ticker s t w) \<noteq> []"
  by (simp add: fst_download_ohlcv simulated_nonempty split: yf_result.split)

lemma filter_range_simulated: "filter_range (simulated_ohlcv d s t) s t = simulated_ohlcv d s t"
proof -
  have "\<forall>b\<in>set (simulated_ohlcv d s t). s \<le> Date b \<and> Date b \<le> t"
  proof
    fix b assume "b \<in> set (simulated_ohlcv d s t)"
    then have "Date b \<in> set (map Date (simulated_ohlcv d s t))" by simp
    then show "s \<le> Date b \<and> Date b \<le> t" by (simp add: map_Date_simulated)
  qed
  then show ?thesis by (simp add: filter_range_def)
qed

lemma get_ohlcv_data_fresh:
  assumes "files w (file_path_of self ticker) = None"
  shows "get_ohlcv_data self e ticker s t w =
     (fst (download_ohlcv e ticker s t w),
      to_csv (file_path_of self ticker) (fst (download_ohlcv e ticker s t w))
        (snd (download_ohlcv e ticker s t w)))"
  using assms by (simp add: get_ohlcv_data_def Let_def split: prod.split)

lemma get_ohlcv_data_hit:
  assumes "files w (file_path_of self ticker) = Some stored"
    and "filter_range stored s t \<noteq> []"
  shows "get_ohlcv_data self e ticker s t w = (filter_range stored s t, w)"
  using assms by (simp add: get_ohlcv_data_def Let_def)

lemma get_ohlcv_data_miss:
  assumes "files w (file_path_of self ticker) = Some stored"
    and "filter_range stored s t = []"
  shows "get_ohlcv_data self e ticker s t w =
     (let r = download_ohlcv e ticker s t (emit (PrintNotCovered ticker s t) w) in
      if fst r \<noteq> [] then (filter_range (fst r) s t, to_csv (file_path_of self ticker) (fst r) (snd r))
      else ([], emit PrintFailedAgain (snd r)))"
  using assms by (simp add: get_ohlcv_data_def Let_def split: prod.split)

section \<open>The simulated series: ordering, shape and sign\<close>

text \<open>
  Claim C1. Every bar of the simulated series, for any ticker and any range with
  \<open>start_date \<le> end_date\<close> and whatever the random draws are, is ordered:
  \<open>Low \<le> min(Open, Close)\<close> and \<open>max(Open, Close) \<le> High\<close>, that is
  \<open>Low \<le> Open \<le> High\<close>, \<open>Low \<le> Close \<le> High\<close> and \<open>Low \<le> High\<close>.
  No bound on the draws is assumed: the final \<^verbatim>\<open>np.maximum\<close> and \<^verbatim>\<open>np.minimum\<close> give it.
\<close>

theorem generated_bars_ohlc_ordered:
  assumes "start_date \<le> end_date"
  shows "\<forall>b\<in>set (fst (generate_simulated_ohlcv d ticker start_date end_date w)).
           Low b \<le> min (Open b) (Close b) \<and> max (Open b) (Close b) \<le> High b \<and>
           Low b \<le> Open b \<and> Open b \<le> High b \<and>
           Low b \<le> Close b \<and> Close b \<le> High b \<and> Low b \<le> High b"
proof
  fix b assume "b \<in> set (fst (generate_simulated_ohlcv d ticker start_date end_date w))"
  then have "b \<in> set (simulated_ohlcv d start_date end_date)"
    by (simp add: generate_simulated_ohlcv_def)
  then have "ohlc_ok b" by (rule simulated_ohlc_ok)
  then show "Low b \<le> min (Open b) (Close b) \<and> max (Open b) (Close b) \<le> High b \<and>
           Low b \<le> Open b \<and> Open b \<le> High b \<and>
           Low b \<le> Close b \<and> Close b \<le> High b \<and> Low b \<le> High b"
    unfolding ohlc_ok_def by auto
qed

text \<open>The series for XYZ from 2020-01-01 to 2020-01-05 has five bars, all ordered.\<close>

theorem generated_bars_ohlc_ordered_witness:
  "length (fst (generate_simulated_ohlcv draws_ex ''XYZ''
       (days_from_civil 2020 1 1) (days_from_civil 2020 1 5) world_fresh)) = 5 \<and>
   list_all (\<lambda>b. Low b \<le> min (Open b) (Close b) \<and> max (Open b) (Close b) \<le> High b \<and>
           Low b \<le> Open b \<and> Open b \<le> High b \<and>
           Low b \<le> Close b \<and> Close b \<le> High b \<and> Low b \<le> High b)
     (fst (generate_simulated_ohlcv draws_ex ''XYZ''
       (days_from_civil 2020 1 1) (days_from_civil 2020 1 5) world_fresh))"
proof -
  have le: "days_from_civil 2020 1 1 \<le> days_from_civil 2020 1 5"
    by (simp add: days_from_civil_def)
  have len: "length (fst (generate_simulated_ohlcv draws_ex ''XYZ''
       (days_from_civil 2020 1 1) (days_from_civil 2020 1 5) world_fresh)) = 5"
    by (simp add: generate_simulated_ohlcv_def length_simulated days_from_civil_def)
  show ?thesis
    using generated_bars_ohlc_ordered[OF le, of draws_ex "''XYZ''" world_fresh] len
    unfolding list_all_iff by blast
qed

text \<open>
  Claim C2. For \<open>start_date \<le> end_date\<close> the simulated series has exactly
  \<open>(end_date - start_date).days + 1\<close> rows, its dates are the calendar days from
  \<open>start_date\<close> to \<open>end_date\<close> in order (row \<open>i\<close> is day \<open>start_date + i\<close>), strictly
  increasing and without duplicates.
\<close>

theorem generated_series_shape:
  assumes "start_date \<le> end_date"
  shows "let df = fst (generate_simulated_ohlcv d ticker start_date end_date w) in
           int (length df) = end_date - start_date + 1 \<and>
           map Date df = [start_date..end_date] \<and>
           (\<forall>i<length df. Date (df ! i) = start_date + int i) \<and>
           sorted_wrt (<) (map Date df) \<and> distinct (map Date df)"
proof -
  let ?df = "simulated_ohlcv d start_date end_date"
  have len: "int (length ?df) = end_date - start_date + 1"
    using assms by (simp add: length_simulated)
  have dates: "map Date ?df = [start_date..end_date]" by (rule map_Date_simulated)
  have nth: "\<forall>i<length ?df. Date (?df ! i) = start_date + int i"
    by (simp add: length_simulated nth_simulated Let_def)
  have "sorted_wrt (<) (map Date ?df)" "distinct (map Date ?df)"
    unfolding dates by (rule sorted_wrt_less_upto, rule distinct_upto)
  with len dates nth show ?thesis
    by (simp add: generate_simulated_ohlcv_def Let_def)
qed

text \<open>From 2020-01-01 to 2020-01-05: the five days 18262 to 18266.\<close>

theorem generated_series_shape_witness:
  "length (fst (generate_simulated_ohlcv draws_ex ''XYZ''
       (days_from_civil 2020 1 1) (days_from_civil 2020 1 5) world_fresh)) = 5 \<and>
   map Date (fst (generate_simulated_ohlcv draws_ex ''XYZ''
       (days_from_civil 2020 1 1) (days_from_civil 2020 1 5) world_fresh)) =
     [18262, 18263, 18264, 18265, 18266]"
proof -
  have le: "days_from_civil 2020 1 1 \<le> days_from_civil 2020 1 5"
    by (simp add: days_from_civil_def)
  have days: "days_from_civil 2020 1 1 = 18262" "days_from_civil 2020 1 5 = 18266"
    by (simp_all add: days_from_civil_def)
  have up: "[18262..18266::int] = [18262, 18263, 18264, 18265, 18266]"
    by code_simp
  show ?thesis
    using generated_series_shape[OF le, of draws_ex "''XYZ''" world_fresh]
    unfolding Let_def days up by auto
qed

text \<open>
  Claim C9. When the draws lie in the intervals they are drawn from (the initial price in
  \<open>[50, 200]\<close>, the drift in \<open>[-0.005, 0.01]\<close>, the open and close noise in
  \<open>[-0.002, 0.002]\<close>, the high and low noise in \<open>[0.001, 0.005]\<close>), the open, high, low
  and close prices of every bar of the simulated series are strictly positive.
\<close>

theorem generated_prices_positive:
  assumes "start_date \<le> end_date"
    and "draws_in_range (nat (end_date - start_date + 1)) d"
  shows "\<forall>b\<in>set (fst (generate_simulated_ohlcv d ticker start_date end_date w)).
           0 < Open b \<and> 0 < High b \<and> 0 < Low b \<and> 0 < Close b"
proof
  fix b assume "b \<in> set (fst (generate_simulated_ohlcv d ticker start_date end_date w))"
  then have "b \<in> set (simulated_ohlcv d start_date end_date)"
    by (simp add: generate_simulated_ohlcv_def)
  with assms(2) have "prices_positive b" by (rule simulated_prices_positive)
  then show "0 < Open b \<and> 0 < High b \<and> 0 < Low b \<and> 0 < Close b"
    by (simp add: prices_positive_def)
qed

text \<open>The example draws are admissible; the first bar they give, and all five are positive.\<close>

theorem generated_prices_positive_witness:
  "draws_in_range 5 draws_ex \<and>
   hd (fst (generate_simulated_ohlcv draws_ex ''XYZ''
       (days_from_civil 2020 1 1) (days_from_civil 2020 1 5) world_fresh)) =
     \<lparr>Date = 18262, Open = 501 / 5, High = 501501 / 5000, Low = 99301 / 1000,
      Close = 499 / 5, Volume = 100000\<rparr> \<and>
   list_all (\<lambda>b. 0 < Open b \<and> 0 < High b \<and> 0 < Low b \<and> 0 < Close b)
     (fst (generate_simulated_ohlcv draws_ex ''XYZ''
       (days_from_civil 2020 1 1) (days_from_civil 2020 1 5) world_fresh))"
proof -
  have le: "days_from_civil 2020 1 1 \<le> days_from_civil 2020 1 5"
    by (simp add: days_from_civil_def)
  have n: "nat (days_from_civil 2020 1 5 - days_from_civil 2020 1 1 + 1) = 5"
    by (simp add: days_from_civil_def)
  have d: "draws_in_range 5 draws_ex"
    by code_simp
  have h: "hd (fst (generate_simulated_ohlcv draws_ex ''XYZ''
       (days_from_civil 2020 1 1) (days_from_civil 2020 1 5) world_fresh)) =
     \<lparr>Date = 18262, Open = 501 / 5, High = 501501 / 5000, Low = 99301 / 1000,
      Close = 499 / 5, Volume = 100000\<rparr>"
    by code_simp
  show ?thesis
    using generated_prices_positive[OF le, of draws_ex "''XYZ''" world_fresh] d h
    unfolding list_all_iff n by blast
qed

section \<open>Effects of the operations on the world\<close>

lemma trace_to_csv: "trace (to_csv p df w) = trace w"
  by (simp add: to_csv_def)

lemma files_to_csv: "files (to_csv p df w) = (files w)(p \<mapsto> df)"
  by (simp add: to_csv_def)

lemma trace_emit: "trace (emit ev w) = trace w @ [ev]"
  by (simp add: emit_def)

lemma files_emit: "files (emit ev w) = files w"
  by (simp add: emit_def)

lemma new_events_append: "trace w' = trace w @ evs \<Longrightarrow> new_events w w' = evs"
  by (simp add: new_events_def)

lemma new_events_same: "new_events w w = []"
  by (simp add: new_events_def)

lemma not_cache_hit_cases:
  assumes "\<not> cache_hit self w ticker s t"
  obtains (fresh) "files w (file_path_of self ticker) = None"
  | (miss) stored where "files w (file_path_of self ticker) = Some stored"
      and "filter_range stored s t = []"
  using assms by (auto simp: cache_hit_def split: option.splits)

lemma get_ohlcv_data_miss_nonempty:
  assumes "files w (file_path_of self ticker) = Some stored"
    and "filter_range stored s t = []"
    and "fst (download_ohlcv e ticker s t w) \<noteq> []"
  shows "get_ohlcv_data self e ticker s t w =
     (filter_range (fst (download_ohlcv e ticker s t w)) s t,
      to_csv (file_path_of self ticker) (fst (download_ohlcv e ticker s t w))
        (snd (download_ohlcv e ticker s t (emit (PrintNotCovered ticker s t) w))))"
proof -
  have eq: "fst (download_ohlcv e ticker s t (emit (PrintNotCovered ticker s t) w)) =
      fst (download_ohlcv e ticker s t w)"
    by (simp add: fst_download_ohlcv)
  show ?thesis
    using assms(3) unfolding get_ohlcv_data_miss[OF assms(1,2)] Let_def eq by simp
qed

lemma get_ohlcv_data_miss_empty:
  assumes "files w (file_path_of self ticker) = Some stored"
    and "filter_range stored s t = []"
    and "fst (download_ohlcv e ticker s t w) = []"
  shows "get_ohlcv_data self e ticker s t w =
     ([], emit PrintFailedAgain
            (snd (download_ohlcv e ticker s t (emit (PrintNotCovered ticker s t) w))))"
proof -
  have eq: "fst (download_ohlcv e ticker s t (emit (PrintNotCovered ticker s t) w)) =
      fst (download_ohlcv e ticker s t w)"
    by (simp add: fst_download_ohlcv)
  show ?thesis
    using assms(3) unfolding get_ohlcv_data_miss[OF assms(1,2)] Let_def eq by simp
qed

lemma failed_again_not_in_download:
  "PrintFailedAgain \<notin> set ([PrintDownloading ticker s t, YfDownload ticker s t] @
       (case r of
          Raises \<Rightarrow> [PrintError ticker, PrintGenerating ticker s t]
        | Returns df \<Rightarrow> if df = [] then [PrintNoData ticker, PrintGenerating ticker s t] else []))"
  by (simp split: yf_result.split)

lemma file_path_QQQ: "file_path_of hub ''QQQ'' = ''project100x/data/raw/QQQ.csv''"
  by (simp add: file_path_of_def hub_def path_join_def)

lemma days_2020: "days_from_civil 2020 1 1 = 18262" "days_from_civil 2020 1 5 = 18266"
  by (simp_all add: days_from_civil_def)

lemma filter_range_all:
  "(\<forall>b\<in>set df. s \<le> Date b \<and> Date b \<le> t) \<Longrightarrow> filter_range df s t = df"
  by (simp add: filter_range_def)

section \<open>The hub: fallback, cache hit, cache miss, first fetch\<close>

text \<open>
  Claim C3. When \<^verbatim>\<open>yf.download\<close> raises or returns an empty frame for a request with
  \<open>start_date \<le> end_date\<close>, \<^verbatim>\<open>_download_ohlcv\<close> returns the simulated series of that
  range: one row per day, every row ordered. The failure does not reach the caller of
  \<^verbatim>\<open>get_ohlcv_data\<close>: whenever the call consults the provider (there is no file, or the
  file has no row in the range) it returns that simulated series.
\<close>

theorem provider_failure_recovered:
  assumes "start_date \<le> end_date"
    and "yf_download e ticker start_date end_date = Raises \<or>
         yf_download e ticker start_date end_date = Returns []"
  shows "fst (download_ohlcv e ticker start_date end_date w) =
           simulated_ohlcv (rnd e) start_date end_date \<and>
         int (length (fst (download_ohlcv e ticker start_date end_date w))) =
           end_date - start_date + 1 \<and>
         (\<forall>b\<in>set (fst (download_ohlcv e ticker start_date end_date w)). ohlc_ok b) \<and>
         (\<not> cache_hit self w ticker start_date end_date \<longrightarrow>
            fst (get_ohlcv_data self e ticker start_date end_date w) =
              simulated_ohlcv (rnd e) start_date end_date)"
proof -
  let ?sim = "simulated_ohlcv (rnd e) start_date end_date"
  have dl: "fst (download_ohlcv e ticker start_date end_date w) = ?sim"
    using assms(2) by (auto simp: fst_download_ohlcv)
  have len: "int (length ?sim) = end_date - start_date + 1"
    using assms(1) by (simp add: length_simulated)
  have ok: "\<forall>b\<in>set ?sim. ohlc_ok b"
    by (simp add: simulated_ohlc_ok)
  have ne: "?sim \<noteq> []" using assms(1) by (rule simulated_nonempty)
  have get: "fst (get_ohlcv_data self e ticker start_date end_date w) = ?sim"
    if "\<not> cache_hit self w ticker start_date end_date"
    using that
  proof (cases rule: not_cache_hit_cases)
    case fresh
    then show ?thesis by (simp add: get_ohlcv_data_fresh dl)
  next
    case (miss stored)
    then show ?thesis
      using ne by (simp add: get_ohlcv_data_miss_nonempty dl filter_range_simulated)
  qed
  show ?thesis using dl len ok get by simp
qed

text \<open>XYZ, 2020-01-01 to 2020-01-05, an unreachable provider and no file: five ordered
  rows, after one call of the provider and the fallback.\<close>

theorem provider_failure_recovered_witness:
  "length (fst (get_ohlcv_data hub env_raises ''XYZ''
      (days_from_civil 2020 1 1) (days_from_civil 2020 1 5) world_fresh)) = 5 \<and>
   list_all ohlc_ok (fst (get_ohlcv_data hub env_raises ''XYZ''
      (days_from_civil 2020 1 1) (days_from_civil 2020 1 5) world_fresh)) \<and>
   trace (snd (get_ohlcv_data hub env_raises ''XYZ''
      (days_from_civil 2020 1 1) (days_from_civil 2020 1 5) world_fresh)) =
     [PrintDownloading ''XYZ'' 18262 18266, YfDownload ''XYZ'' 18262 18266,
      PrintError ''XYZ'', PrintGenerating ''XYZ'' 18262 18266]"
proof -
  let ?s = "days_from_civil 2020 1 1" and ?t = "days_from_civil 2020 1 5"
  have le: "?s \<le> ?t" by (simp add: days_from_civil_def)
  have yf: "yf_download env_raises ''XYZ'' ?s ?t = Raises \<or>
      yf_download env_raises ''XYZ'' ?s ?t = Returns []"
    by (simp add: env_raises_def)
  have nohit: "\<not> cache_hit hub world_fresh ''XYZ'' ?s ?t"
    by (simp add: cache_hit_def world_fresh_def)
  have tr: "trace (snd (get_ohlcv_data hub env_raises ''XYZ'' ?s ?t world_fresh)) =
     [PrintDownloading ''XYZ'' 18262 18266, YfDownload ''XYZ'' 18262 18266,
      PrintError ''XYZ'', PrintGenerating ''XYZ'' 18262 18266]"
    by (simp add: get_ohlcv_data_fresh world_fresh_def trace_to_csv trace_download_ohlcv
        env_raises_def days_from_civil_def)
  have len: "length (simulated_ohlcv (rnd env_raises) ?s ?t) = 5"
    by (simp add: length_simulated days_from_civil_def)
  show ?thesis
    using provider_failure_recovered[OF le yf, of world_fresh hub] nohit tr len
    unfolding list_all_iff by simp
qed

text \<open>The instance of the specification: XYZ from 2020-01-01 to 2020-01-05 gives 5 rows,
  whatever the draws are.\<close>

lemma provider_failure_XYZ:
  assumes "yf_download e ''XYZ'' (days_from_civil 2020 1 1) (days_from_civil 2020 1 5) = Raises \<or>
           yf_download e ''XYZ'' (days_from_civil 2020 1 1) (days_from_civil 2020 1 5) = Returns []"
  shows "length (fst (download_ohlcv e ''XYZ'' (days_from_civil 2020 1 1)
            (days_from_civil 2020 1 5) w)) = 5"
proof -
  have "fst (download_ohlcv e ''XYZ'' (days_from_civil 2020 1 1) (days_from_civil 2020 1 5) w) =
      simulated_ohlcv (rnd e) (days_from_civil 2020 1 1) (days_from_civil 2020 1 5)"
    using assms by (auto simp: fst_download_ohlcv)
  then show ?thesis by (simp add: length_simulated days_from_civil_def)
qed

text \<open>The effects of the branch that finds a file without a row in the range, relative
  to the frame \<^verbatim>\<open>_download_ohlcv\<close> returns.\<close>

lemma get_ohlcv_data_miss_effects:
  assumes "files w (file_path_of self ticker) = Some stored"
    and "filter_range stored start_date end_date = []"
  shows "let df = fst (download_ohlcv e ticker start_date end_date w);
             res = fst (get_ohlcv_data self e ticker start_date end_date w);
             w' = snd (get_ohlcv_data self e ticker start_date end_date w)
         in yf_calls (new_events w w') = [YfDownload ticker start_date end_date] \<and>
            (df \<noteq> [] \<longrightarrow>
               res = filter_range df start_date end_date \<and>
               files w' = (files w)(file_path_of self ticker \<mapsto> df)) \<and>
            (df = [] \<longrightarrow> res = [] \<and> files w' = files w)"
proof (cases "fst (download_ohlcv e ticker start_date end_date w) = []")
  case True
  have "trace (snd (get_ohlcv_data self e ticker start_date end_date w)) =
      trace w @ ([PrintNotCovered ticker start_date end_date] @
        [PrintDownloading ticker start_date end_date, YfDownload ticker start_date end_date] @
        (case yf_download e ticker start_date end_date of
          Raises \<Rightarrow> [PrintError ticker, PrintGenerating ticker start_date end_date]
        | Returns df \<Rightarrow> if df = [] then [PrintNoData ticker, PrintGenerating ticker start_date end_date] else []) @
        [PrintFailedAgain])"
    by (simp add: get_ohlcv_data_miss_empty[OF assms True] trace_emit trace_download_ohlcv)
  then have "yf_calls (new_events w (snd (get_ohlcv_data self e ticker start_date end_date w))) =
      [YfDownload ticker start_date end_date]"
    by (simp add: new_events_append yf_calls_def split: yf_result.split)
  then show ?thesis
    using True
    by (simp add: get_ohlcv_data_miss_empty[OF assms True] files_emit files_download_ohlcv)
next
  case False
  have "trace (snd (get_ohlcv_data self e ticker start_date end_date w)) =
      trace w @ ([PrintNotCovered ticker start_date end_date] @
        [PrintDownloading ticker start_date end_date, YfDownload ticker start_date end_date] @
        (case yf_download e ticker start_date end_date of
          Raises \<Rightarrow> [PrintError ticker, PrintGenerating ticker start_date end_date]
        | Returns df \<Rightarrow> if df = [] then [PrintNoData ticker, PrintGenerating ticker start_date end_date] else []))"
    by (simp add: get_ohlcv_data_miss_nonempty[OF assms False] trace_to_csv trace_emit
        trace_download_ohlcv)
  then have "yf_calls (new_events w (snd (get_ohlcv_data self e ticker start_date end_date w))) =
      [YfDownload ticker start_date end_date]"
    by (simp add: new_events_append yf_calls_def split: yf_result.split)
  then show ?thesis
    using False
    by (simp add: get_ohlcv_data_miss_nonempty[OF assms False] files_to_csv files_emit
        files_download_ohlcv)
qed

text \<open>
  Claim C4. When the file of the ticker exists and the stored frame has a row dated in
  \<open>[start_date, end_date]\<close>, \<^verbatim>\<open>get_ohlcv_data\<close> returns exactly the stored rows \<open>b\<close> with
  \<open>start_date \<le> Date b \<le> end_date\<close>, in their stored order, whether or not they span the
  range, and leaves the world as it was: the provider is not called, nothing is written,
  nothing is printed.
\<close>

theorem cache_hit_returns_stored_slice:
  assumes "files w (file_path_of self ticker) = Some stored"
    and "[b\<leftarrow>stored. start_date \<le> Date b \<and> Date b \<le> end_date] \<noteq> []"
  shows "get_ohlcv_data self e ticker start_date end_date w =
           ([b\<leftarrow>stored. start_date \<le> Date b \<and> Date b \<le> end_date], w) \<and>
         yf_calls (new_events w (snd (get_ohlcv_data self e ticker start_date end_date w))) = []"
proof -
  have ne: "filter_range stored start_date end_date \<noteq> []"
    using assms(2) by (simp add: filter_range_def)
  have "get_ohlcv_data self e ticker start_date end_date w =
      (filter_range stored start_date end_date, w)"
    using assms(1) ne by (rule get_ohlcv_data_hit)
  then show ?thesis
    by (simp add: filter_range_def new_events_same yf_calls_def)
qed

text \<open>A file with the rows of 2019-12-31, 2020-01-01, 2020-01-05 and 2020-01-06 answers a
  request for 2020-01-01 to 2020-01-05 with the rows of 2020-01-01 and 2020-01-05: the
  rows before the start and after the end are dropped, both bounds are inclusive, and the
  three days in between are not fetched.\<close>

theorem cache_hit_returns_stored_slice_witness:
  "get_ohlcv_data hub env_raises ''QQQ'' (days_from_civil 2020 1 1) (days_from_civil 2020 1 5)
      world_partial = ([bar_ex 18262, bar_ex 18266], world_partial) \<and>
   files world_partial ''project100x/data/raw/QQQ.csv'' =
     Some [bar_ex 18261, bar_ex 18262, bar_ex 18266, bar_ex 18267] \<and>
   map Date [bar_ex 18262, bar_ex 18266] \<noteq>
     [days_from_civil 2020 1 1..days_from_civil 2020 1 5]"
proof -
  let ?stored = "[bar_ex 18261, bar_ex 18262, bar_ex 18266, bar_ex 18267]"
  have f: "files world_partial (file_path_of hub ''QQQ'') = Some ?stored"
    by (simp add: world_partial_def file_path_QQQ)
  have f': "files world_partial ''project100x/data/raw/QQQ.csv'' = Some ?stored"
    by (simp add: world_partial_def)
  have flt: "[b\<leftarrow>?stored. days_from_civil 2020 1 1 \<le> Date b \<and>
      Date b \<le> days_from_civil 2020 1 5] = [bar_ex 18262, bar_ex 18266]"
    by (simp add: bar_ex_def days_2020)
  have ne: "[b\<leftarrow>?stored. days_from_civil 2020 1 1 \<le> Date b \<and>
      Date b \<le> days_from_civil 2020 1 5] \<noteq> []"
    unfolding flt by simp
  have up: "[18262..18266::int] = [18262, 18263, 18264, 18265, 18266]"
    by code_simp
  have span: "map Date [bar_ex 18262, bar_ex 18266] \<noteq>
      [days_from_civil 2020 1 1..days_from_civil 2020 1 5]"
    by (simp add: days_2020 up)
  show ?thesis
    using cache_hit_returns_stored_slice[OF f ne, of env_raises] f' span
    unfolding flt by simp
qed

text \<open>
  Claim C5. When the file exists and the stored frame has no row in
  \<open>[start_date, end_date]\<close>, \<^verbatim>\<open>get_ohlcv_data\<close> fetches again, with one call of the
  provider: the new frame \<open>df\<close> is what the provider returns when that is a non-empty
  frame, and the simulated series of the range when the provider raises or returns an
  empty frame. If \<open>df\<close> is not empty, the file is overwritten with all of \<open>df\<close> and the rows
  \<open>b\<close> of \<open>df\<close> with \<open>start_date \<le> Date b \<le> end_date\<close> are returned; so after a failure
  of the provider, for \<open>start_date \<le> end_date\<close>, the simulated series is stored and
  returned. If \<open>df\<close> is empty, the file is left as it was and the empty frame is returned,
  as a value.
\<close>

theorem cache_miss_refetches:
  assumes "files w (file_path_of self ticker) = Some stored"
    and "filter_range stored start_date end_date = []"
  shows "let df = fst (download_ohlcv e ticker start_date end_date w);
             res = fst (get_ohlcv_data self e ticker start_date end_date w);
             w' = snd (get_ohlcv_data self e ticker start_date end_date w);
             failed = (yf_download e ticker start_date end_date = Raises \<or>
                       yf_download e ticker start_date end_date = Returns [])
         in yf_calls (new_events w w') = [YfDownload ticker start_date end_date] \<and>
            (failed \<longrightarrow> df = simulated_ohlcv (rnd e) start_date end_date) \<and>
            (\<forall>d. yf_download e ticker start_date end_date = Returns d \<and> d \<noteq> [] \<longrightarrow> df = d) \<and>
            (df \<noteq> [] \<longrightarrow>
               res = [b\<leftarrow>df. start_date \<le> Date b \<and> Date b \<le> end_date] \<and>
               files w' = (files w)(file_path_of self ticker \<mapsto> df)) \<and>
            (df = [] \<longrightarrow> res = [] \<and> files w' = files w) \<and>
            (failed \<and> start_date \<le> end_date \<longrightarrow>
               res = simulated_ohlcv (rnd e) start_date end_date \<and>
               files w' = (files w)(file_path_of self ticker \<mapsto>
                            simulated_ohlcv (rnd e) start_date end_date))"
proof -
  let ?df = "fst (download_ohlcv e ticker start_date end_date w)"
  let ?res = "fst (get_ohlcv_data self e ticker start_date end_date w)"
  let ?w' = "snd (get_ohlcv_data self e ticker start_date end_date w)"
  let ?sim = "simulated_ohlcv (rnd e) start_date end_date"
  let ?failed = "yf_download e ticker start_date end_date = Raises \<or>
                 yf_download e ticker start_date end_date = Returns []"
  note core = get_ohlcv_data_miss_effects[OF assms, of e, unfolded Let_def]
  have calls: "yf_calls (new_events w ?w') = [YfDownload ticker start_date end_date]"
    using core by simp
  have nonempty: "?res = [b\<leftarrow>?df. start_date \<le> Date b \<and> Date b \<le> end_date] \<and>
      files ?w' = (files w)(file_path_of self ticker \<mapsto> ?df)" if "?df \<noteq> []"
    using core that by (simp add: filter_range_def)
  have empty: "?res = [] \<and> files ?w' = files w" if "?df = []"
    using core that by simp
  have fallback: "?df = ?sim" if "?failed"
    using that by (auto simp: fst_download_ohlcv)
  have real: "?df = d" if "yf_download e ticker start_date end_date = Returns d" "d \<noteq> []" for d
    using that by (simp add: fst_download_ohlcv)
  have recovered: "?res = ?sim \<and> files ?w' = (files w)(file_path_of self ticker \<mapsto> ?sim)"
    if "?failed" "start_date \<le> end_date"
  proof -
    have df: "?df = ?sim" using that(1) by (rule fallback)
    have "?sim \<noteq> []" using that(2) by (rule simulated_nonempty)
    then have "?df \<noteq> []" using df by simp
    from core this have "?res = filter_range ?df start_date end_date"
        "files ?w' = (files w)(file_path_of self ticker \<mapsto> ?df)"
      by simp_all
    then show ?thesis unfolding df by (simp add: filter_range_simulated)
  qed
  show ?thesis
    unfolding Let_def using calls nonempty empty fallback real recovered by blast
qed

text \<open>A file with a row of 2019-01-01 only, asked for 2020-01-01 to 2020-01-05. With the
  provider that answers: its three rows are stored, the two of them in the range are
  returned. With the unreachable provider: the five rows of the simulated series are
  stored and returned.\<close>

theorem cache_miss_refetches_witness:
  "fst (get_ohlcv_data hub env_real ''QQQ'' (days_from_civil 2020 1 1)
      (days_from_civil 2020 1 5) world_stale) = [bar_ex 18262, bar_ex 18263] \<and>
   files (snd (get_ohlcv_data hub env_real ''QQQ'' (days_from_civil 2020 1 1)
      (days_from_civil 2020 1 5) world_stale)) ''project100x/data/raw/QQQ.csv'' =
     Some [bar_ex 18261, bar_ex 18262, bar_ex 18263] \<and>
   yf_calls (new_events world_stale (snd (get_ohlcv_data hub env_real ''QQQ''
      (days_from_civil 2020 1 1) (days_from_civil 2020 1 5) world_stale))) =
     [YfDownload ''QQQ'' 18262 18266] \<and>
   fst (get_ohlcv_data hub env_raises ''QQQ'' (days_from_civil 2020 1 1)
      (days_from_civil 2020 1 5) world_stale) = simulated_ohlcv draws_ex 18262 18266 \<and>
   files (snd (get_ohlcv_data hub env_raises ''QQQ'' (days_from_civil 2020 1 1)
      (days_from_civil 2020 1 5) world_stale)) ''project100x/data/raw/QQQ.csv'' =
     Some (simulated_ohlcv draws_ex 18262 18266) \<and>
   map Date (simulated_ohlcv draws_ex 18262 18266) = [18262, 18263, 18264, 18265, 18266] \<and>
   yf_calls (new_events world_stale (snd (get_ohlcv_data hub env_raises ''QQQ''
      (days_from_civil 2020 1 1) (days_from_civil 2020 1 5) world_stale))) =
     [YfDownload ''QQQ'' 18262 18266]"
proof -
  let ?s = "days_from_civil 2020 1 1" and ?t = "days_from_civil 2020 1 5"
  have f: "files world_stale (file_path_of hub ''QQQ'') = Some [bar_ex 17897]"
    by (simp add: world_stale_def file_path_QQQ)
  have e: "filter_range [bar_ex 17897] ?s ?t = []"
    by (simp add: filter_range_def bar_ex_def days_2020)
  have df: "fst (download_ohlcv env_real ''QQQ'' ?s ?t world_stale) =
      [bar_ex 18261, bar_ex 18262, bar_ex 18263]"
    by (simp add: fst_download_ohlcv env_real_def)
  have flt: "[b\<leftarrow>[bar_ex 18261, bar_ex 18262, bar_ex 18263]. 18262 \<le> Date b \<and> Date b \<le> 18266] =
      [bar_ex 18262, bar_ex 18263]"
    by (simp add: bar_ex_def)
  have real: "fst (get_ohlcv_data hub env_real ''QQQ'' ?s ?t world_stale) =
        [bar_ex 18262, bar_ex 18263] \<and>
      files (snd (get_ohlcv_data hub env_real ''QQQ'' ?s ?t world_stale))
        ''project100x/data/raw/QQQ.csv'' = Some [bar_ex 18261, bar_ex 18262, bar_ex 18263] \<and>
      yf_calls (new_events world_stale (snd (get_ohlcv_data hub env_real ''QQQ'' ?s ?t
        world_stale))) = [YfDownload ''QQQ'' 18262 18266]"
    using cache_miss_refetches[OF f e, of env_real, unfolded Let_def days_2020,
        unfolded df[unfolded days_2020], unfolded flt]
    by (simp add: days_2020 file_path_QQQ)
  have failed: "yf_download env_raises ''QQQ'' 18262 18266 = Raises"
    by (simp add: env_raises_def)
  have rnd: "rnd env_raises = draws_ex" by (simp add: env_raises_def)
  have raises: "fst (get_ohlcv_data hub env_raises ''QQQ'' ?s ?t world_stale) =
        simulated_ohlcv draws_ex 18262 18266 \<and>
      files (snd (get_ohlcv_data hub env_raises ''QQQ'' ?s ?t world_stale))
        ''project100x/data/raw/QQQ.csv'' = Some (simulated_ohlcv draws_ex 18262 18266) \<and>
      yf_calls (new_events world_stale (snd (get_ohlcv_data hub env_raises ''QQQ'' ?s ?t
        world_stale))) = [YfDownload ''QQQ'' 18262 18266]"
    using cache_miss_refetches[OF f e, of env_raises, unfolded Let_def rnd days_2020] failed
    by (simp add: days_2020 file_path_QQQ)
  have up: "[18262..18266::int] = [18262, 18263, 18264, 18265, 18266]"
    by code_simp
  have dates: "map Date (simulated_ohlcv draws_ex 18262 18266) =
      [18262, 18263, 18264, 18265, 18266]"
    by (simp add: map_Date_simulated up)
  show ?thesis using real raises dates by simp
qed

text \<open>What the branch without a file does: the downloaded frame is returned as it is, and
  stored as it is.\<close>

lemma fresh_fetch_saved_and_returned:
  assumes "files w (file_path_of self ticker) = None"
  shows "fst (get_ohlcv_data self e ticker s t w) = fst (download_ohlcv e ticker s t w) \<and>
         files (snd (get_ohlcv_data self e ticker s t w)) =
           (files w)(file_path_of self ticker \<mapsto> fst (download_ohlcv e ticker s t w))"
  using assms by (simp add: get_ohlcv_data_fresh files_to_csv files_download_ohlcv)

text \<open>The frame returned is the slice for the range when every downloaded row is dated
  in the range, as the rows of the simulated series are.\<close>

lemma fresh_fetch_is_slice_when_in_range:
  assumes "files w (file_path_of self ticker) = None"
    and "\<forall>b\<in>set (fst (download_ohlcv e ticker s t w)). s \<le> Date b \<and> Date b \<le> t"
  shows "fst (get_ohlcv_data self e ticker s t w) =
           filter_range (fst (download_ohlcv e ticker s t w)) s t"
  using assms by (simp add: get_ohlcv_data_fresh filter_range_all)

text \<open>
  Claim C6 says that, when there is no file for the ticker, \<^verbatim>\<open>get_ohlcv_data\<close> fetches a
  series, saves all of it and returns its slice for \<open>[start_date, end_date]\<close>. In the code
  the branch without a file returns the downloaded frame unfiltered; only the branch that
  finds a file filters after its download. For QQQ from 2020-01-01 to 2020-01-05, no file,
  and a provider that answers with the rows of 2019-12-31, 2020-01-01 and 2020-01-02, all
  three rows are saved and all three are returned, the row of 2019-12-31 included; the
  slice has two rows.
\<close>

theorem fresh_fetch_returns_rows_outside_range:
  "fst (get_ohlcv_data hub env_real ''QQQ'' (days_from_civil 2020 1 1)
      (days_from_civil 2020 1 5) world_fresh) = [bar_ex 18261, bar_ex 18262, bar_ex 18263] \<and>
   files (snd (get_ohlcv_data hub env_real ''QQQ'' (days_from_civil 2020 1 1)
      (days_from_civil 2020 1 5) world_fresh)) ''project100x/data/raw/QQQ.csv'' =
     Some [bar_ex 18261, bar_ex 18262, bar_ex 18263] \<and>
   filter_range [bar_ex 18261, bar_ex 18262, bar_ex 18263]
      (days_from_civil 2020 1 1) (days_from_civil 2020 1 5) = [bar_ex 18262, bar_ex 18263] \<and>
   Date (bar_ex 18261) < days_from_civil 2020 1 1"
proof -
  have f: "files world_fresh (file_path_of hub ''QQQ'') = None"
    by (simp add: world_fresh_def)
  have df: "fst (download_ohlcv env_real ''QQQ'' (days_from_civil 2020 1 1)
      (days_from_civil 2020 1 5) world_fresh) = [bar_ex 18261, bar_ex 18262, bar_ex 18263]"
    by (simp add: fst_download_ohlcv env_real_def)
  have flt: "filter_range [bar_ex 18261, bar_ex 18262, bar_ex 18263] 18262 18266 =
      [bar_ex 18262, bar_ex 18263]"
    by (simp add: filter_range_def bar_ex_def)
  have before: "Date (bar_ex 18261) < days_from_civil 2020 1 1"
    by (simp add: bar_ex_def days_2020)
  have "fst (get_ohlcv_data hub env_real ''QQQ'' (days_from_civil 2020 1 1)
      (days_from_civil 2020 1 5) world_fresh) = [bar_ex 18261, bar_ex 18262, bar_ex 18263]"
    by (simp add: get_ohlcv_data_fresh[OF f] df)
  moreover have "files (snd (get_ohlcv_data hub env_real ''QQQ'' (days_from_civil 2020 1 1)
      (days_from_civil 2020 1 5) world_fresh)) ''project100x/data/raw/QQQ.csv'' =
     Some [bar_ex 18261, bar_ex 18262, bar_ex 18263]"
    by (simp add: get_ohlcv_data_fresh[OF f] df files_to_csv file_path_QQQ)
  moreover have "filter_range [bar_ex 18261, bar_ex 18262, bar_ex 18263]
      (days_from_civil 2020 1 1) (days_from_civil 2020 1 5) = [bar_ex 18262, bar_ex 18263]"
    by (simp add: days_2020 flt)
  ultimately show ?thesis using before by simp
qed

text \<open>A second call with the same arguments that finds a row of the range in the file
  returns the rows of the first result that lie in the range, and changes nothing.\<close>

lemma repeated_call_is_hit:
  assumes "cache_hit self (snd (get_ohlcv_data self e1 ticker s t w)) ticker s t"
  shows "get_ohlcv_data self e2 ticker s t (snd (get_ohlcv_data self e1 ticker s t w)) =
           (filter_range (fst (get_ohlcv_data self e1 ticker s t w)) s t,
            snd (get_ohlcv_data self e1 ticker s t w))"
proof -
  let ?p = "file_path_of self ticker"
  let ?r = "get_ohlcv_data self e1 ticker s t w"
  have idem: "filter_range (filter_range df s t) s t = filter_range df s t" for df
    by (simp add: filter_range_def)
  from assms obtain saved where saved: "files (snd ?r) ?p = Some saved"
      and ne: "filter_range saved s t \<noteq> []"
    by (auto simp: cache_hit_def split: option.splits)
  have "filter_range saved s t = filter_range (fst ?r) s t"
  proof (cases "files w ?p")
    case None
    then show ?thesis
      using saved by (simp add: get_ohlcv_data_fresh files_to_csv)
  next
    case (Some stored)
    show ?thesis
    proof (cases "filter_range stored s t = []")
      case False
      then show ?thesis
        using saved Some by (simp add: get_ohlcv_data_hit idem)
    next
      case True
      show ?thesis
      proof (cases "fst (download_ohlcv e1 ticker s t w) = []")
        case False
        then show ?thesis
          using saved by (simp add: get_ohlcv_data_miss_nonempty[OF Some True False] files_to_csv idem)
      next
        case empty: True
        then show ?thesis
          using saved ne Some True
          by (simp add: get_ohlcv_data_miss_empty[OF Some True empty] files_emit files_download_ohlcv)
      qed
    qed
  qed
  then show ?thesis
    using get_ohlcv_data_hit[OF saved ne, of e2] by simp
qed

text \<open>
  Claim C7 says that a second call of \<^verbatim>\<open>get_ohlcv_data\<close> with the same arguments returns
  the same rows as the first and does not call the provider, when the series the first
  call saved has a row in the range. For QQQ from 2020-01-01 to 2020-01-05, no file, and
  the provider of claim C6: the first call returns three rows, the saved frame has rows in
  the range, the second call returns two rows. It leaves the world as the first call left
  it, so it does not call the provider.
\<close>

theorem repeated_call_drops_rows:
  "fst (get_ohlcv_data hub env_real ''QQQ'' (days_from_civil 2020 1 1)
      (days_from_civil 2020 1 5) world_fresh) = [bar_ex 18261, bar_ex 18262, bar_ex 18263] \<and>
   filter_range [bar_ex 18261, bar_ex 18262, bar_ex 18263]
      (days_from_civil 2020 1 1) (days_from_civil 2020 1 5) \<noteq> [] \<and>
   fst (get_ohlcv_data hub env_real ''QQQ'' (days_from_civil 2020 1 1) (days_from_civil 2020 1 5)
      (snd (get_ohlcv_data hub env_real ''QQQ'' (days_from_civil 2020 1 1)
         (days_from_civil 2020 1 5) world_fresh))) = [bar_ex 18262, bar_ex 18263] \<and>
   snd (get_ohlcv_data hub env_real ''QQQ'' (days_from_civil 2020 1 1) (days_from_civil 2020 1 5)
      (snd (get_ohlcv_data hub env_real ''QQQ'' (days_from_civil 2020 1 1)
         (days_from_civil 2020 1 5) world_fresh))) =
     snd (get_ohlcv_data hub env_real ''QQQ'' (days_from_civil 2020 1 1)
         (days_from_civil 2020 1 5) world_fresh)"
proof -
  let ?s = "days_from_civil 2020 1 1" and ?t = "days_from_civil 2020 1 5"
  let ?w1 = "snd (get_ohlcv_data hub env_real ''QQQ'' ?s ?t world_fresh)"
  have f: "files world_fresh (file_path_of hub ''QQQ'') = None"
    by (simp add: world_fresh_def)
  have df: "fst (download_ohlcv env_real ''QQQ'' ?s ?t world_fresh) =
      [bar_ex 18261, bar_ex 18262, bar_ex 18263]"
    by (simp add: fst_download_ohlcv env_real_def)
  have flt: "filter_range [bar_ex 18261, bar_ex 18262, bar_ex 18263] ?s ?t =
      [bar_ex 18262, bar_ex 18263]"
    by (simp add: filter_range_def bar_ex_def days_2020)
  have r1: "fst (get_ohlcv_data hub env_real ''QQQ'' ?s ?t world_fresh) =
      [bar_ex 18261, bar_ex 18262, bar_ex 18263]"
    by (simp add: get_ohlcv_data_fresh[OF f] df)
  have saved: "files ?w1 (file_path_of hub ''QQQ'') = Some [bar_ex 18261, bar_ex 18262, bar_ex 18263]"
    by (simp add: get_ohlcv_data_fresh[OF f] df files_to_csv)
  have ne: "filter_range [bar_ex 18261, bar_ex 18262, bar_ex 18263] ?s ?t \<noteq> []"
    by (simp add: flt)
  have r2: "get_ohlcv_data hub env_real ''QQQ'' ?s ?t ?w1 = ([bar_ex 18262, bar_ex 18263], ?w1)"
    using get_ohlcv_data_hit[OF saved ne, of env_real] by (simp add: flt)
  show ?thesis using r1 ne r2 by simp
qed

text \<open>
  Claim C10. For \<open>start_date \<le> end_date\<close> the frame \<^verbatim>\<open>_download_ohlcv\<close> returns is never
  empty. So a call of \<^verbatim>\<open>get_ohlcv_data\<close> never takes the branch that prints
  \<^verbatim>\<open>Download failed again\<close> and skips the overwrite: whenever it consults the provider,
  the file holds the downloaded frame afterwards.
\<close>

theorem refetch_never_empty:
  assumes "start_date \<le> end_date"
  shows "fst (download_ohlcv e ticker start_date end_date w) \<noteq> [] \<and>
         PrintFailedAgain \<notin>
           set (new_events w (snd (get_ohlcv_data self e ticker start_date end_date w))) \<and>
         (\<not> cache_hit self w ticker start_date end_date \<longrightarrow>
            files (snd (get_ohlcv_data self e ticker start_date end_date w))
                  (file_path_of self ticker) =
              Some (fst (download_ohlcv e ticker start_date end_date w)))"
proof -
  let ?df = "fst (download_ohlcv e ticker start_date end_date w)"
  let ?r = "get_ohlcv_data self e ticker start_date end_date w"
  let ?evs = "[PrintDownloading ticker start_date end_date, YfDownload ticker start_date end_date] @
        (case yf_download e ticker start_date end_date of
          Raises \<Rightarrow> [PrintError ticker, PrintGenerating ticker start_date end_date]
        | Returns df \<Rightarrow> if df = [] then [PrintNoData ticker, PrintGenerating ticker start_date end_date] else [])"
  have ne: "?df \<noteq> []" using assms by (rule download_nonempty)
  have no: "PrintFailedAgain \<notin> set ?evs" by (rule failed_again_not_in_download)
  have "PrintFailedAgain \<notin> set (new_events w (snd ?r)) \<and>
      (\<not> cache_hit self w ticker start_date end_date \<longrightarrow>
         files (snd ?r) (file_path_of self ticker) = Some ?df)"
  proof (cases "files w (file_path_of self ticker)")
    case None
    have "trace (snd ?r) = trace w @ ?evs"
      by (simp add: get_ohlcv_data_fresh[OF None] trace_to_csv trace_download_ohlcv)
    then have "new_events w (snd ?r) = ?evs" by (rule new_events_append)
    then show ?thesis
      using no by (simp add: get_ohlcv_data_fresh[OF None] files_to_csv)
  next
    case (Some stored)
    show ?thesis
    proof (cases "filter_range stored start_date end_date = []")
      case False
      then show ?thesis
        using Some by (simp add: get_ohlcv_data_hit new_events_same cache_hit_def)
    next
      case True
      have "trace (snd ?r) = trace w @ (PrintNotCovered ticker start_date end_date # ?evs)"
        by (simp add: get_ohlcv_data_miss_nonempty[OF Some True ne] trace_to_csv
            trace_download_ohlcv trace_emit)
      then have "new_events w (snd ?r) = PrintNotCovered ticker start_date end_date # ?evs"
        by (rule new_events_append)
      then show ?thesis
        using no by (simp add: get_ohlcv_data_miss_nonempty[OF Some True ne] files_to_csv)
    qed
  qed
  with ne show ?thesis by simp
qed

text \<open>A stale file and an unreachable provider: the simulated series of the range is
  stored.\<close>

theorem refetch_never_empty_witness:
  "fst (download_ohlcv env_raises ''QQQ'' (days_from_civil 2020 1 1)
      (days_from_civil 2020 1 5) world_stale) \<noteq> [] \<and>
   PrintFailedAgain \<notin> set (new_events world_stale (snd (get_ohlcv_data hub env_raises ''QQQ''
      (days_from_civil 2020 1 1) (days_from_civil 2020 1 5) world_stale))) \<and>
   files (snd (get_ohlcv_data hub env_raises ''QQQ''
      (days_from_civil 2020 1 1) (days_from_civil 2020 1 5) world_stale))
     ''project100x/data/raw/QQQ.csv'' =
     Some (simulated_ohlcv draws_ex 18262 18266)"
proof -
  have le: "days_from_civil 2020 1 1 \<le> days_from_civil 2020 1 5"
    by (simp add: days_2020)
  have nohit: "\<not> cache_hit hub world_stale ''QQQ'' (days_from_civil 2020 1 1)
      (days_from_civil 2020 1 5)"
    by (simp add: cache_hit_def world_stale_def file_path_QQQ filter_range_def bar_ex_def
        days_2020)
  have df: "fst (download_ohlcv env_raises ''QQQ'' (days_from_civil 2020 1 1)
      (days_from_civil 2020 1 5) world_stale) = simulated_ohlcv draws_ex 18262 18266"
    by (simp add: fst_download_ohlcv env_raises_def days_2020)
  show ?thesis
    using refetch_never_empty[OF le, of env_raises "''QQQ''" world_stale hub] nohit
    by (simp add: df file_path_QQQ)
qed

text \<open>The hypothesis is needed: with the end before the start the simulated series is
  empty, and the branch is taken.\<close>

lemma refetch_empty_when_range_reversed:
  "get_ohlcv_data hub env_raises ''QQQ'' (days_from_civil 2020 1 5) (days_from_civil 2020 1 1)
      world_stale =
     ([], \<lparr>files = files world_stale,
           trace = [PrintNotCovered ''QQQ'' 18266 18262, PrintDownloading ''QQQ'' 18266 18262,
                    YfDownload ''QQQ'' 18266 18262, PrintError ''QQQ'',
                    PrintGenerating ''QQQ'' 18266 18262, PrintFailedAgain]\<rparr>)"
proof -
  have f: "files world_stale (file_path_of hub ''QQQ'') = Some [bar_ex 17897]"
    by (simp add: world_stale_def file_path_QQQ)
  have e: "filter_range [bar_ex 17897] (days_from_civil 2020 1 5) (days_from_civil 2020 1 1) = []"
    by (simp add: filter_range_def bar_ex_def days_2020)
  have sim: "simulated_ohlcv draws_ex 18266 18262 = []"
    using length_simulated[of draws_ex 18266 18262] by simp
  have df: "fst (download_ohlcv env_raises ''QQQ'' (days_from_civil 2020 1 5)
      (days_from_civil 2020 1 1) world_stale) = []"
    by (simp add: fst_download_ohlcv env_raises_def days_2020 sim)
  show ?thesis
    unfolding get_ohlcv_data_miss_empty[OF f e df]
    by (simp add: download_ohlcv_def generate_simulated_ohlcv_def emit_def env_raises_def
        world_stale_def days_2020 Let_def)
qed

end
